theory Spec2Isabelle
  imports Complex_Main
begin

section \<open>Values and errors\<close>

text \<open>
  The program is dynamically typed: a request value, a constructor argument and an
  attribute may each hold a number, a string, a date or Python's None. Numbers (Python's
  int and its finite floats) are read as their rational value, so that equality of
  \<open>VNum\<close> is Python's \<open>==\<close> on numbers. A date is the triple a \<open>datetime.date\<close>
  object holds.
\<close>

datatype pyval = VNone | VNum rat | VStr string | VDate int int int

text \<open>
  Every exception the code can raise is a constructor; a computation returns
  \<open>error + 'a\<close>, with \<open>Inl\<close> the raised exception. The string of an error names
  the kind of failure; it abridges the interpreter's message, which also quotes the
  offending value.
\<close>

datatype error =
    ValidationError string pyval
  | AssertionError string
  | ValueError string
  | OverflowError string
  | IndexError string
  | AttributeError string
  | TypeError string

definition ebind :: "error + 'a \<Rightarrow> ('a \<Rightarrow> error + 'b) \<Rightarrow> error + 'b" where
  "ebind r f = (case r of Inl e \<Rightarrow> Inl e | Inr v \<Rightarrow> f v)"

section \<open>Validators\<close>

text \<open>
  Modelled from the spec: the module \<open>validators\<close> that parameters.py imports
  (Positive, StrictlyPositive, OptionalStrictlyPositive, Rate, Date, OptionalDate) is not
  among the sources. Each validator takes one value and returns it unchanged on success,
  or signals a validation failure that names the constraint and the offending value.
  Positive succeeds iff the value is a number \<open>\<ge> 0\<close>.
\<close>

definition Positive :: "pyval \<Rightarrow> error + pyval" where
  "Positive v =
     (case v of
        VNum x \<Rightarrow> if 0 \<le> x then Inr v else Inl (ValidationError ''Positive'' v)
      | _ \<Rightarrow> Inl (ValidationError ''Positive'' v))"

text \<open>
  Modelled from the spec: StrictlyPositive (of the absent module \<open>validators\<close>) succeeds
  iff the value is a number \<open>> 0\<close>.
\<close>

definition StrictlyPositive :: "pyval \<Rightarrow> error + pyval" where
  "StrictlyPositive v =
     (case v of
        VNum x \<Rightarrow> if 0 < x then Inr v else Inl (ValidationError ''StrictlyPositive'' v)
      | _ \<Rightarrow> Inl (ValidationError ''StrictlyPositive'' v))"

text \<open>
  Modelled from the spec: OptionalStrictlyPositive (of the absent module \<open>validators\<close>)
  succeeds if the value is None, or if StrictlyPositive succeeds.
\<close>

definition OptionalStrictlyPositive :: "pyval \<Rightarrow> error + pyval" where
  "OptionalStrictlyPositive v = (if v = VNone then Inr v else StrictlyPositive v)"

text \<open>
  Modelled from the spec: Rate (of the absent module \<open>validators\<close>) succeeds iff the
  value is a number in the closed interval \<open>[0, 1]\<close>.
\<close>

definition Rate :: "pyval \<Rightarrow> error + pyval" where
  "Rate v =
     (case v of
        VNum x \<Rightarrow> if 0 \<le> x \<and> x \<le> 1 then Inr v else Inl (ValidationError ''Rate'' v)
      | _ \<Rightarrow> Inl (ValidationError ''Rate'' v))"

subsection \<open>Calendar dates\<close>

text \<open>
  \<open>datetime.date(year, month, day)\<close> of Python's standard library, as CPython
  implements it. The three arguments are first converted to C integers, in order: one
  that does not fit 32 bits raises OverflowError, before any range is looked at (the
  message tells a value beyond 64 bits, the size of a C long, from one beyond 32). Then
  the year must lie in \<open>MINYEAR .. MAXYEAR\<close> (1 to 9999), the month in 1 to 12, the
  day in 1 to the number of days of that month of that year; anything else raises
  ValueError.
\<close>

definition c_int :: "int \<Rightarrow> error + int" where
  "c_int v =
     (if v < - (2 ^ 63) \<or> 2 ^ 63 - 1 < v
        then Inl (OverflowError ''Python int too large to convert to C long'')
      else if 2 ^ 31 - 1 < v then Inl (OverflowError ''signed integer is greater than maximum'')
      else if v < - (2 ^ 31) then Inl (OverflowError ''signed integer is less than minimum'')
      else Inr v)"

definition is_leap :: "int \<Rightarrow> bool" where
  "is_leap y = (y mod 4 = 0 \<and> (y mod 100 \<noteq> 0 \<or> y mod 400 = 0))"

definition days_in_month :: "int \<Rightarrow> int \<Rightarrow> int" where
  "days_in_month y m =
     (if m = 2 then (if is_leap y then 29 else 28)
      else if m = 4 \<or> m = 6 \<or> m = 9 \<or> m = 11 then 30
      else 31)"

definition valid_date :: "int \<Rightarrow> int \<Rightarrow> int \<Rightarrow> bool" where
  "valid_date y m d =
     (1 \<le> y \<and> y \<le> 9999 \<and> 1 \<le> m \<and> m \<le> 12 \<and> 1 \<le> d \<and> d \<le> days_in_month y m)"

definition date :: "int \<Rightarrow> int \<Rightarrow> int \<Rightarrow> error + pyval" where
  "date year month day =
     ebind (c_int year) (\<lambda>y.
     ebind (c_int month) (\<lambda>m.
     ebind (c_int day) (\<lambda>d.
       if \<not> (1 \<le> y \<and> y \<le> 9999) then Inl (ValueError ''year is out of range'')
       else if \<not> (1 \<le> m \<and> m \<le> 12) then Inl (ValueError ''month must be in 1..12'')
       else if \<not> (1 \<le> d \<and> d \<le> days_in_month y m)
         then Inl (ValueError ''day is out of range for month'')
       else Inr (VDate y m d))))"

text \<open>
  Modelled from the spec: Date (of the absent module \<open>validators\<close>) succeeds iff the
  value is a valid calendar date (not a string), past or future.
\<close>

definition Date :: "pyval \<Rightarrow> error + pyval" where
  "Date v =
     (case v of
        VDate y m d \<Rightarrow> if valid_date y m d then Inr v else Inl (ValidationError ''Date'' v)
      | _ \<Rightarrow> Inl (ValidationError ''Date'' v))"

text \<open>
  Modelled from the spec: OptionalDate (of the absent module \<open>validators\<close>) succeeds if
  the value is None, or if Date succeeds.
\<close>

definition OptionalDate :: "pyval \<Rightarrow> error + pyval" where
  "OptionalDate v = (if v = VNone then Inr v else Date v)"

section \<open>Disposition and Regions\<close>

text \<open>\<open>Disposition = namedtuple("Disposition", ("rate", "days"))\<close>: a bare pair.\<close>

record Disposition =
  rate :: pyval
  days :: pyval

text \<open>
  A Regions object is its attribute dictionary. \<open>__init__\<close> walks the keyword arguments
  in order (a Python dict: the names are distinct), sets each as an attribute and adds its
  value to the running total, which starts at the int 0; adding anything but a number to
  it raises TypeError. The total is assigned to the attribute \<open>population\<close> last.
  The names are region names: the attributes that every Python object is born with
  (\<open>__class__\<close>, \<open>__dict__\<close>, \<open>__weakref__\<close>), which \<open>setattr\<close> refuses to
  set to a number, are outside the model.
\<close>

record Regions =
  attrs :: "string \<rightharpoonup> pyval"

fun Regions_loop ::
  "(string \<times> pyval) list \<Rightarrow> (string \<rightharpoonup> pyval) \<Rightarrow> rat \<Rightarrow> error + (string \<rightharpoonup> pyval) \<times> rat" where
  "Regions_loop [] self population = Inr (self, population)"
| "Regions_loop ((key, val) # kwargs) self population =
     (case val of
        VNum x \<Rightarrow> Regions_loop kwargs (self(key \<mapsto> val)) (population + x)
      | _ \<Rightarrow> Inl (TypeError ''unsupported operand type(s) for +=''))"

definition Regions_init :: "(string \<times> pyval) list \<Rightarrow> error + Regions" where
  "Regions_init kwargs =
     ebind (Regions_loop kwargs Map.empty 0)
       (\<lambda>(self, population). Inr \<lparr>attrs = self(''population'' \<mapsto> VNum population)\<rparr>)"

text \<open>Reading an attribute of a Regions object: AttributeError when it was never set.\<close>

definition getattr :: "string \<Rightarrow> Regions \<Rightarrow> error + pyval" where
  "getattr name r = (case attrs r name of Some v \<Rightarrow> Inr v | None \<Rightarrow> Inl (AttributeError name))"

text \<open>Named integer populations, as the keyword arguments of a call of \<open>Regions\<close>.\<close>

definition kwargs_of :: "(string \<times> int) list \<Rightarrow> (string \<times> pyval) list" where
  "kwargs_of named = map (\<lambda>(name, n). (name, VNum (of_int n))) named"

section \<open>Parameters\<close>

record Parameters =
  current_hospitalized :: pyval
  relative_contact_rate :: pyval
  hospitalized :: Disposition
  icu :: Disposition
  ventilated :: Disposition
  region :: "Regions option"
  population :: pyval
  current_date :: pyval
  date_first_hospitalized :: pyval
  doubling_time :: pyval
  infectious_days :: pyval
  market_share :: pyval
  max_y_axis :: pyval
  n_days :: pyval
  recovered :: pyval
  labels :: "string \<rightharpoonup> string"
  dispositions :: "string \<rightharpoonup> Disposition"

text \<open>
  The keyword arguments of \<open>Parameters.__init__\<close>. The five without a default are
  plain fields. An argument whose default is None is the value itself (leaving it out and
  passing None are the same call): \<open>VNone\<close>, and \<open>None\<close> for \<open>region\<close>. An argument
  with another default is an option, \<open>None\<close> standing for "left out".
\<close>

record Parameters_kwargs =
  arg_current_hospitalized :: pyval
  arg_hospitalized :: Disposition
  arg_icu :: Disposition
  arg_relative_contact_rate :: pyval
  arg_ventilated :: Disposition
  arg_current_date :: "pyval option"
  arg_date_first_hospitalized :: pyval
  arg_doubling_time :: pyval
  arg_infectious_days :: "pyval option"
  arg_market_share :: "pyval option"
  arg_max_y_axis :: pyval
  arg_n_days :: "pyval option"
  arg_population :: pyval
  arg_recovered :: "pyval option"
  arg_region :: "Regions option"

definition kwarg :: "'a \<Rightarrow> 'a option \<Rightarrow> 'a" where
  "kwarg dflt x = (case x of None \<Rightarrow> dflt | Some v \<Rightarrow> v)"

text \<open>
  Lines 81 to 88 of parameters.py, the population source: the \<open>if\<close> takes the region
  when population is None, the \<open>elif\<close> takes every population that is not None (whatever
  the region is) and stores None as the region, the \<open>else\<close> raises AssertionError.
\<close>

definition population_source :: "Regions option \<Rightarrow> pyval \<Rightarrow> error + Regions option \<times> pyval" where
  "population_source reg pop =
     (if reg \<noteq> None \<and> pop = VNone then
        (case reg of
           Some r \<Rightarrow>
             ebind (getattr ''population'' r) (\<lambda>v.
             ebind (StrictlyPositive v) (\<lambda>p. Inr (reg, p)))
         | None \<Rightarrow> Inl (AttributeError ''population''))
      else if pop \<noteq> VNone then ebind (StrictlyPositive pop) (\<lambda>p. Inr (None, p))
      else Inl (AssertionError ''population or regions must be provided.''))"

definition the_labels :: "string \<rightharpoonup> string" where
  "the_labels =
     [''hospitalized'' \<mapsto> ''Hospitalized'', ''icu'' \<mapsto> ''ICU'',
      ''ventilated'' \<mapsto> ''Ventilated'', ''day'' \<mapsto> ''Day'', ''date'' \<mapsto> ''Date'',
      ''susceptible'' \<mapsto> ''Susceptible'', ''infected'' \<mapsto> ''Infected'',
      ''recovered'' \<mapsto> ''Recovered'']"

text \<open>
  \<open>Parameters.__init__\<close>, statement by statement. The default of \<open>current_date\<close> is
  \<open>date.today()\<close>, evaluated once when the function is defined: it is the parameter
  \<open>today\<close> of the model. A failing validator raises, so nothing after it runs and no
  object results.
\<close>

definition Parameters_init :: "pyval \<Rightarrow> Parameters_kwargs \<Rightarrow> error + Parameters" where
  "Parameters_init today a =
     ebind (Positive (arg_current_hospitalized a)) (\<lambda>ch.
     ebind (Rate (arg_relative_contact_rate a)) (\<lambda>rcr.
     ebind (Rate (rate (arg_hospitalized a))) (\<lambda>_.
     ebind (Rate (rate (arg_icu a))) (\<lambda>_.
     ebind (Rate (rate (arg_ventilated a))) (\<lambda>_.
     ebind (StrictlyPositive (days (arg_hospitalized a))) (\<lambda>_.
     ebind (StrictlyPositive (days (arg_icu a))) (\<lambda>_.
     ebind (StrictlyPositive (days (arg_ventilated a))) (\<lambda>_.
     ebind (population_source (arg_region a) (arg_population a)) (\<lambda>(reg, pop).
     ebind (Date (kwarg today (arg_current_date a))) (\<lambda>cd.
     ebind (OptionalDate (arg_date_first_hospitalized a)) (\<lambda>dfh.
     ebind (OptionalStrictlyPositive (arg_doubling_time a)) (\<lambda>dt.
     ebind (StrictlyPositive (kwarg (VNum 14) (arg_infectious_days a))) (\<lambda>idays.
     ebind (Rate (kwarg (VNum 1) (arg_market_share a))) (\<lambda>ms.
     ebind (OptionalStrictlyPositive (arg_max_y_axis a)) (\<lambda>mya.
     ebind (StrictlyPositive (kwarg (VNum 100) (arg_n_days a))) (\<lambda>nd.
     ebind (Positive (kwarg (VNum 0) (arg_recovered a))) (\<lambda>recov.
     Inr \<lparr>current_hospitalized = ch,
          relative_contact_rate = rcr,
          hospitalized = arg_hospitalized a,
          icu = arg_icu a,
          ventilated = arg_ventilated a,
          region = reg,
          population = pop,
          current_date = cd,
          date_first_hospitalized = dfh,
          doubling_time = dt,
          infectious_days = idays,
          market_share = ms,
          max_y_axis = mya,
          n_days = nd,
          recovered = recov,
          labels = the_labels,
          dispositions =
            [''hospitalized'' \<mapsto> arg_hospitalized a, ''icu'' \<mapsto> arg_icu a,
             ''ventilated'' \<mapsto> arg_ventilated a]\<rparr>)))))))))))))))))"

section \<open>construct_parameters\<close>

text \<open>\<open>dict.get(key, default)\<close>.\<close>

definition dict_get :: "(string \<rightharpoonup> pyval) \<Rightarrow> string \<Rightarrow> pyval \<Rightarrow> pyval" where
  "dict_get m k dflt = (case m k of None \<Rightarrow> dflt | Some v \<Rightarrow> v)"

text \<open>
  \<open>str.split(sep)\<close> with a one-character separator: the pieces between the separators,
  at least one piece, empty pieces kept. A value that is not a string has no \<open>split\<close>.
\<close>

fun split_on :: "char \<Rightarrow> string \<Rightarrow> string list" where
  "split_on sep [] = [[]]"
| "split_on sep (c # cs) =
     (if c = sep then [] # split_on sep cs
      else (case split_on sep cs of
              piece # pieces \<Rightarrow> (c # piece) # pieces
            | [] \<Rightarrow> [[c]]))"

definition str_split :: "pyval \<Rightarrow> char \<Rightarrow> error + string list" where
  "str_split v sep =
     (case v of
        VStr s \<Rightarrow> Inr (split_on sep s)
      | _ \<Rightarrow> Inl (AttributeError ''split''))"

text \<open>\<open>xs[i]\<close> for an index that is not negative: IndexError past the end.\<close>

definition getitem :: "'a list \<Rightarrow> nat \<Rightarrow> error + 'a" where
  "getitem xs i = (if i < length xs then Inr (xs ! i) else Inl (IndexError ''list index out of range''))"

text \<open>
  \<open>int(s)\<close> on a string, base 10, as CPython reads it. White space is stripped from
  both ends; one sign may follow; then come decimal digits, single underscores allowed
  between two digits. A \<open>char\<close> is read as the code point of that number (0 to 255),
  where the white space is 9 to 13, 32, 133 and 160 and the only decimal digits are
  \<open>0\<close> to \<open>9\<close>; strings with higher code points are outside the model.

  After the sign the interpreter scans the longest run of digits and underscores. A run
  with an underscore at its start or end, or with two in a row, is an invalid literal; a
  run of more than 4300 digits exceeds the limit for the conversion (the interpreter's
  default, \<open>sys.int_info.default_max_str_digits\<close>); an empty run, or anything left
  after the run, is an invalid literal. All of these raise ValueError.
\<close>

definition is_space :: "char \<Rightarrow> bool" where
  "is_space c =
     (let n = (of_char c :: nat)
      in (9 \<le> n \<and> n \<le> 13) \<or> n = 32 \<or> n = 133 \<or> n = 160)"

definition is_digit :: "char \<Rightarrow> bool" where
  "is_digit c = (let n = (of_char c :: nat) in 48 \<le> n \<and> n \<le> 57)"

definition strip :: "string \<Rightarrow> string" where
  "strip s = rev (dropWhile is_space (rev (dropWhile is_space s)))"

fun digits_ok :: "string \<Rightarrow> bool" where
  "digits_ok [] = False"
| "digits_ok [c] = is_digit c"
| "digits_ok (c # u # cs) =
     (is_digit c \<and> (if u = CHR ''_'' then digits_ok cs else digits_ok (u # cs)))"

definition digits_value :: "string \<Rightarrow> int" where
  "digits_value s =
     foldl (\<lambda>acc c. if c = CHR ''_'' then acc else 10 * acc + (int (of_char c) - 48)) 0 s"

definition max_str_digits :: nat where
  "max_str_digits = 4300"

definition py_int :: "string \<Rightarrow> error + int" where
  "py_int s =
     (let t = strip s;
          (neg, body) =
            (case t of
               [] \<Rightarrow> (False, [])
             | c # cs \<Rightarrow>
                 if c = CHR ''-'' then (True, cs)
                 else if c = CHR ''+'' then (False, cs)
                 else (False, t));
          run = takeWhile (\<lambda>c. is_digit c \<or> c = CHR ''_'') body
      in if run \<noteq> [] \<and> \<not> digits_ok run
           then Inl (ValueError ''invalid literal for int() with base 10'')
         else if max_str_digits < length (filter is_digit run)
           then Inl (ValueError ''Exceeds the limit (4300 digits) for integer string conversion'')
         else if run = [] \<or> run \<noteq> body
           then Inl (ValueError ''invalid literal for int() with base 10'')
         else Inr (if neg then - digits_value body else digits_value body))"

text \<open>
  The dictionary \<open>association_map\<close> of \<open>construct_parameters\<close>. Its entries are
  evaluated in order; the only ones that can raise are the split of the date string
  (first statement) and \<open>date(int(split_date[0]), int(split_date[1]), int(split_date[2]))\<close>,
  whose arguments are evaluated left to right. Only the first three pieces are read.
  The keys it does not hold (current_date, doubling_time, max_y_axis, recovered, region)
  are left to the defaults of \<open>Parameters.__init__\<close>.
\<close>

definition association_map :: "(string \<rightharpoonup> pyval) \<Rightarrow> error + Parameters_kwargs" where
  "association_map request_data =
     ebind (str_split (dict_get request_data ''dateOfFirstHospitalizedCase'' (VStr ''2020-7-3''))
              CHR ''-'') (\<lambda>split_date.
     ebind (getitem split_date 0) (\<lambda>s0.
     ebind (py_int s0) (\<lambda>y.
     ebind (getitem split_date 1) (\<lambda>s1.
     ebind (py_int s1) (\<lambda>m.
     ebind (getitem split_date 2) (\<lambda>s2.
     ebind (py_int s2) (\<lambda>d.
     ebind (date y m d) (\<lambda>dfh.
     Inr \<lparr>arg_current_hospitalized = dict_get request_data ''currentHospitalized'' (VNum 0),
          arg_hospitalized =
            \<lparr>rate = dict_get request_data ''hospitalizationPercent'' (VNum 0),
             days = dict_get request_data ''averageHospitalLengthOfStay'' (VNum 0)\<rparr>,
          arg_icu =
            \<lparr>rate = dict_get request_data ''icuNeedPercent'' (VNum 0),
             days = dict_get request_data ''averageDaysInICU'' (VNum 0)\<rparr>,
          arg_relative_contact_rate = dict_get request_data ''socialDistancing'' (VNum 0),
          arg_ventilated =
            \<lparr>rate = dict_get request_data ''ventilationNeedPercent'' (VNum 0),
             days = dict_get request_data ''averageDaysOnVentilator'' (VNum 0)\<rparr>,
          arg_current_date = None,
          arg_date_first_hospitalized = dfh,
          arg_doubling_time = VNone,
          arg_infectious_days = Some (dict_get request_data ''infectiousDays'' (VNum 0)),
          arg_market_share = Some (dict_get request_data ''hospitalMarketShare'' (VNum 0)),
          arg_max_y_axis = VNone,
          arg_n_days = Some (dict_get request_data ''numberOfDaysToProject'' (VNum 100)),
          arg_population = dict_get request_data ''population'' (VNum 10000),
          arg_recovered = None,
          arg_region = None\<rparr>))))))))"

definition construct_parameters :: "pyval \<Rightarrow> (string \<rightharpoonup> pyval) \<Rightarrow> error + Parameters" where
  "construct_parameters today request_data =
     ebind (association_map request_data) (Parameters_init today)"

section \<open>The constraints on the fields, in the spec's words\<close>

text \<open>
  The spec's data model states each field's constraint: a number \<open>\<ge> 0\<close>, a number
  \<open>> 0\<close>, a fraction in \<open>[0, 1]\<close>, a valid calendar date. They are the hypotheses of
  the theorems below and the yardstick the validators are compared with.
\<close>

definition is_nonneg :: "pyval \<Rightarrow> bool" where
  "is_nonneg v = (case v of VNum x \<Rightarrow> 0 \<le> x | _ \<Rightarrow> False)"

definition is_strictly_positive :: "pyval \<Rightarrow> bool" where
  "is_strictly_positive v = (case v of VNum x \<Rightarrow> 0 < x | _ \<Rightarrow> False)"

definition in_unit_interval :: "pyval \<Rightarrow> bool" where
  "in_unit_interval v = (case v of VNum x \<Rightarrow> 0 \<le> x \<and> x \<le> 1 | _ \<Rightarrow> False)"

definition is_date :: "pyval \<Rightarrow> bool" where
  "is_date v = (case v of VDate y m d \<Rightarrow> valid_date y m d | _ \<Rightarrow> False)"

definition disposition_valid :: "Disposition \<Rightarrow> bool" where
  "disposition_valid d = (in_unit_interval (rate d) \<and> is_strictly_positive (days d))"

text \<open>Every input of \<open>Parameters.__init__\<close> but the dispositions and the population source.\<close>

definition others_valid :: "pyval \<Rightarrow> Parameters_kwargs \<Rightarrow> bool" where
  "others_valid today a =
     (is_nonneg (arg_current_hospitalized a) \<and>
      in_unit_interval (arg_relative_contact_rate a) \<and>
      is_date (kwarg today (arg_current_date a)) \<and>
      (arg_date_first_hospitalized a = VNone \<or> is_date (arg_date_first_hospitalized a)) \<and>
      (arg_doubling_time a = VNone \<or> is_strictly_positive (arg_doubling_time a)) \<and>
      is_strictly_positive (kwarg (VNum 14) (arg_infectious_days a)) \<and>
      in_unit_interval (kwarg (VNum 1) (arg_market_share a)) \<and>
      (arg_max_y_axis a = VNone \<or> is_strictly_positive (arg_max_y_axis a)) \<and>
      is_strictly_positive (kwarg (VNum 100) (arg_n_days a)) \<and>
      is_nonneg (kwarg (VNum 0) (arg_recovered a)))"

text \<open>
  A date string the adapter cannot turn into a date: fewer than three pieces between the
  dashes, a piece among the first three that \<open>int\<close> rejects, or three integers that are
  no calendar date. The errors that follow are IndexError (a missing piece), ValueError
  (from \<open>int\<close>, or from \<open>date\<close> on a value out of range) and OverflowError (from
  \<open>date\<close> on a value beyond a C integer).
\<close>

definition date_string_rejected :: "string \<Rightarrow> bool" where
  "date_string_rejected s =
     (case take 3 (split_on CHR ''-'' s) of
        [a, b, c] \<Rightarrow>
          (case (py_int a, py_int b, py_int c) of
             (Inr y, Inr m, Inr d) \<Rightarrow> \<not> valid_date y m d
           | _ \<Rightarrow> True)
      | _ \<Rightarrow> True)"

definition is_parse_error :: "error \<Rightarrow> bool" where
  "is_parse_error e =
     (case e of
        ValueError _ \<Rightarrow> True
      | OverflowError _ \<Rightarrow> True
      | IndexError _ \<Rightarrow> True
      | _ \<Rightarrow> False)"

section \<open>Sample inputs\<close>

text \<open>
  The values of the comments at the head of parameters.py: 2.5 percent hospitalized for
  7 days, 0.75 percent in the ICU for 9 days, 0.5 percent ventilated for 10 days.
\<close>

definition sample_kwargs :: Parameters_kwargs where
  "sample_kwargs =
     \<lparr>arg_current_hospitalized = VNum 4,
      arg_hospitalized = \<lparr>rate = VNum (1 / 40), days = VNum 7\<rparr>,
      arg_icu = \<lparr>rate = VNum (3 / 400), days = VNum 9\<rparr>,
      arg_relative_contact_rate = VNum (3 / 10),
      arg_ventilated = \<lparr>rate = VNum (1 / 200), days = VNum 10\<rparr>,
      arg_current_date = None,
      arg_date_first_hospitalized = VNone,
      arg_doubling_time = VNum 4,
      arg_infectious_days = None,
      arg_market_share = None,
      arg_max_y_axis = VNone,
      arg_n_days = None,
      arg_population = VNum 1000,
      arg_recovered = None,
      arg_region = None\<rparr>"

definition sample_region :: Regions where
  "sample_region =
     \<lparr>attrs = [''a'' \<mapsto> VNum 10, ''b'' \<mapsto> VNum 20, ''c'' \<mapsto> VNum 5, ''population'' \<mapsto> VNum 35]\<rparr>"

definition sample_today :: pyval where
  "sample_today = VDate 2020 4 1"

text \<open>A request that overrides the four defaults of 0 that no validator accepts.\<close>

definition sample_request :: "string \<rightharpoonup> pyval" where
  "sample_request =
     [''averageHospitalLengthOfStay'' \<mapsto> VNum 7, ''averageDaysInICU'' \<mapsto> VNum 9,
      ''averageDaysOnVentilator'' \<mapsto> VNum 10, ''infectiousDays'' \<mapsto> VNum 14]"

section \<open>Basic facts\<close>

lemma ebind_Inl [simp]: "ebind (Inl e) f = Inl e"
  by (simp add: ebind_def)

lemma ebind_Inr [simp]: "ebind (Inr v) f = f v"
  by (simp add: ebind_def)

lemma ebind_eq_Inr: "(ebind r f = Inr y) = (\<exists>v. r = Inr v \<and> f v = Inr y)"
  by (cases r) simp_all

text \<open>Each validator, against the constraint it stands for.\<close>

lemma Positive_eq:
  "Positive v = (if is_nonneg v then Inr v else Inl (ValidationError ''Positive'' v))"
  by (cases v) (simp_all add: Positive_def is_nonneg_def)

lemma StrictlyPositive_eq:
  "StrictlyPositive v =
     (if is_strictly_positive v then Inr v else Inl (ValidationError ''StrictlyPositive'' v))"
  by (cases v) (simp_all add: StrictlyPositive_def is_strictly_positive_def)

lemma Rate_eq:
  "Rate v = (if in_unit_interval v then Inr v else Inl (ValidationError ''Rate'' v))"
  by (cases v) (simp_all add: Rate_def in_unit_interval_def)

lemma Date_eq: "Date v = (if is_date v then Inr v else Inl (ValidationError ''Date'' v))"
  by (cases v) (simp_all add: Date_def is_date_def)

lemma OptionalStrictlyPositive_eq:
  "OptionalStrictlyPositive v =
     (if v = VNone \<or> is_strictly_positive v then Inr v
      else Inl (ValidationError ''StrictlyPositive'' v))"
  by (simp add: OptionalStrictlyPositive_def StrictlyPositive_eq)

lemma OptionalDate_eq:
  "OptionalDate v =
     (if v = VNone \<or> is_date v then Inr v else Inl (ValidationError ''Date'' v))"
  by (simp add: OptionalDate_def Date_eq)

lemmas validator_eqs =
  Positive_eq StrictlyPositive_eq Rate_eq Date_eq OptionalStrictlyPositive_eq OptionalDate_eq

section \<open>The Rate validator\<close>

text \<open>
  Claim C8. The Rate validator succeeds exactly on the numbers of the closed interval
  \<open>[0, 1]\<close> and then returns its argument unchanged; on every other value (a number
  outside the interval, or no number at all) it fails.
\<close>

theorem Rate_succeeds_exactly_on_unit_interval:
  "(Rate v = Inr w) = (w = v \<and> (\<exists>x. v = VNum x \<and> 0 \<le> x \<and> x \<le> 1)) \<and>
   (\<exists>e. Rate v = Inl e) = (\<not> (\<exists>x. v = VNum x \<and> 0 \<le> x \<and> x \<le> 1))"
  by (cases v) (auto simp: Rate_def)

section \<open>Regions\<close>

text \<open>
  The loop on named integers never fails: it returns the running total plus their sum,
  and the attributes it has set are the last value given for each name.
\<close>

lemma Regions_loop_kwargs_of:
  "\<exists>self'. Regions_loop (kwargs_of named) self pop =
            Inr (self', pop + of_int (sum_list (map snd named))) \<and>
          (\<forall>k. self' k = (case map_of (rev named) k of
                            Some n \<Rightarrow> Some (VNum (of_int n))
                          | None \<Rightarrow> self k))"
proof (induction named arbitrary: self pop)
  case Nil
  then show ?case by (simp add: kwargs_of_def)
next
  case (Cons kn named)
  obtain k0 n0 where kn: "kn = (k0, n0)" by (cases kn)
  from Cons.IH [of "self(k0 \<mapsto> VNum (of_int n0))" "pop + of_int n0"]
  obtain self' where
    run: "Regions_loop (kwargs_of named) (self(k0 \<mapsto> VNum (of_int n0))) (pop + of_int n0) =
            Inr (self', pop + of_int n0 + of_int (sum_list (map snd named)))"
    and look: "\<And>k. self' k = (case map_of (rev named) k of
                                 Some n \<Rightarrow> Some (VNum (of_int n))
                               | None \<Rightarrow> (self(k0 \<mapsto> VNum (of_int n0))) k)"
    by blast
  have "Regions_loop (kwargs_of (kn # named)) self pop =
          Inr (self', pop + of_int (sum_list (map snd (kn # named))))"
    using run by (simp add: kn kwargs_of_def add.assoc)
  moreover have "\<forall>k. self' k = (case map_of (rev (kn # named)) k of
                                  Some n \<Rightarrow> Some (VNum (of_int n))
                                | None \<Rightarrow> self k)"
    by (simp add: look kn map_add_def split: option.splits)
  ultimately show ?case by blast
qed

lemma Regions_init_kwargs_of:
  "\<exists>r. Regions_init (kwargs_of named) = Inr r \<and>
        attrs r ''population'' = Some (VNum (of_int (sum_list (map snd named)))) \<and>
        (\<forall>k. k \<noteq> ''population'' \<longrightarrow>
           attrs r k = (case map_of (rev named) k of
                          Some n \<Rightarrow> Some (VNum (of_int n))
                        | None \<Rightarrow> None))"
proof -
  from Regions_loop_kwargs_of [of named Map.empty 0]
  obtain self' where
    run: "Regions_loop (kwargs_of named) Map.empty 0 = Inr (self', of_int (sum_list (map snd named)))"
    and look: "\<And>k. self' k = (case map_of (rev named) k of
                                 Some n \<Rightarrow> Some (VNum (of_int n))
                               | None \<Rightarrow> None)"
    by auto
  show ?thesis
    by (simp add: Regions_init_def run look)
qed

text \<open>
  Claim C5, as amended. For every mapping of named integer populations, the Regions
  instance constructed from it has a population attribute equal to the sum of all the
  supplied values, and each supplied name other than \<open>population\<close> is an attribute
  holding its supplied value. In particular \<open>Regions(a=10, b=20, c=5)\<close> has
  population 35, a 10, b 20 and c 5.
\<close>

theorem Regions_population_is_sum:
  assumes "distinct (map fst named)"
  shows "\<exists>r. Regions_init (kwargs_of named) = Inr r \<and>
             getattr ''population'' r = Inr (VNum (of_int (sum_list (map snd named)))) \<and>
             (\<forall>(name, n) \<in> set named.
                name \<noteq> ''population'' \<longrightarrow> getattr name r = Inr (VNum (of_int n)))"
proof -
  from Regions_init_kwargs_of [of named]
  obtain r where
    ok: "Regions_init (kwargs_of named) = Inr r"
    and total: "attrs r ''population'' = Some (VNum (of_int (sum_list (map snd named))))"
    and look: "\<And>k. k \<noteq> ''population'' \<Longrightarrow>
                 attrs r k = (case map_of (rev named) k of
                                Some n \<Rightarrow> Some (VNum (of_int n))
                              | None \<Rightarrow> None)"
    by blast
  have "getattr name r = Inr (VNum (of_int n))"
    if "(name, n) \<in> set named" "name \<noteq> ''population''" for name n
  proof -
    have "distinct (map fst (rev named))"
      using assms by (simp add: rev_map [symmetric])
    then have "map_of (rev named) name = Some n"
      using that(1) by simp
    then show ?thesis
      by (simp add: getattr_def look [OF that(2)])
  qed
  then show ?thesis
    using ok total by (auto simp: getattr_def)
qed

theorem Regions_population_is_sum_witness:
  "ebind (Regions_init (kwargs_of [(''a'', 10), (''b'', 20), (''c'', 5)])) (getattr ''population'')
     = Inr (VNum 35) \<and>
   ebind (Regions_init (kwargs_of [(''a'', 10), (''b'', 20), (''c'', 5)])) (getattr ''a'')
     = Inr (VNum 10) \<and>
   ebind (Regions_init (kwargs_of [(''a'', 10), (''b'', 20), (''c'', 5)])) (getattr ''b'')
     = Inr (VNum 20) \<and>
   ebind (Regions_init (kwargs_of [(''a'', 10), (''b'', 20), (''c'', 5)])) (getattr ''c'')
     = Inr (VNum 5)"
  using Regions_population_is_sum [of "[(''a'', 10), (''b'', 20), (''c'', 5)]"]
  by auto

text \<open>
  Claim C5 as stated fails for a supplied name \<open>population\<close>:
  \<open>Regions(population=5, a=10).population\<close> is 15, not the supplied 5.
\<close>

theorem Regions_supplied_population_counterexample:
  "ebind (Regions_init (kwargs_of [(''population'', 5), (''a'', 10)])) (getattr ''population'')
     = Inr (VNum 15) \<and>
   ebind (Regions_init (kwargs_of [(''population'', 5), (''a'', 10)])) (getattr ''population'')
     \<noteq> Inr (VNum 5)"
  by (simp add: Regions_init_def kwargs_of_def getattr_def)

text \<open>
  Claim C10. Even when one of the named arguments is itself called \<open>population\<close>,
  the population attribute of the instance is the sum of all supplied values: the total
  is assigned last and replaces the attribute set from that argument.
\<close>

theorem Regions_population_overwrites_named_argument:
  assumes "(''population'', n) \<in> set named"
  shows "ebind (Regions_init (kwargs_of named)) (getattr ''population'')
           = Inr (VNum (of_int (sum_list (map snd named))))"
  using Regions_init_kwargs_of [of named] by (auto simp: getattr_def)

theorem Regions_population_overwrites_named_argument_witness:
  "ebind (Regions_init (kwargs_of [(''north'', 500), (''population'', 7), (''south'', 300)]))
     (getattr ''population'') = Inr (VNum 807)"
  using Regions_population_overwrites_named_argument
    [of 7 "[(''north'', 500), (''population'', 7), (''south'', 300)]"]
  by simp

section \<open>Parameters construction\<close>

text \<open>
  When the population source resolves, and when the whole constructor succeeds: every
  check passes, and the object holds the arguments as they were given.
\<close>

lemma population_source_eq_Inr:
  "(population_source reg pop = Inr (reg', pop')) =
     (if pop = VNone
      then (\<exists>r. reg = Some r \<and> reg' = reg \<and> getattr ''population'' r = Inr pop' \<and>
                is_strictly_positive pop')
      else reg' = None \<and> pop' = pop \<and> is_strictly_positive pop)"
  by (auto simp: population_source_def StrictlyPositive_eq ebind_eq_Inr split: option.splits)

lemma Parameters_init_eq_Inr:
  "(Parameters_init today a = Inr p) =
     (disposition_valid (arg_hospitalized a) \<and> disposition_valid (arg_icu a) \<and>
      disposition_valid (arg_ventilated a) \<and> others_valid today a \<and>
      (\<exists>reg pop. population_source (arg_region a) (arg_population a) = Inr (reg, pop) \<and>
      p = \<lparr>current_hospitalized = arg_current_hospitalized a,
          relative_contact_rate = arg_relative_contact_rate a,
          hospitalized = arg_hospitalized a,
          icu = arg_icu a,
          ventilated = arg_ventilated a,
          region = reg,
          population = pop,
          current_date = kwarg today (arg_current_date a),
          date_first_hospitalized = arg_date_first_hospitalized a,
          doubling_time = arg_doubling_time a,
          infectious_days = kwarg (VNum 14) (arg_infectious_days a),
          market_share = kwarg (VNum 1) (arg_market_share a),
          max_y_axis = arg_max_y_axis a,
          n_days = kwarg (VNum 100) (arg_n_days a),
          recovered = kwarg (VNum 0) (arg_recovered a),
          labels = the_labels,
          dispositions =
            [''hospitalized'' \<mapsto> arg_hospitalized a, ''icu'' \<mapsto> arg_icu a,
             ''ventilated'' \<mapsto> arg_ventilated a]\<rparr>))"
  unfolding Parameters_init_def validator_eqs disposition_valid_def others_valid_def
  by (cases "population_source (arg_region a) (arg_population a)") (auto simp: ebind_def)

text \<open>The checks that run before the population source is looked at.\<close>

lemma Parameters_init_early_failure:
  assumes "\<not> (is_nonneg (arg_current_hospitalized a) \<and>
              in_unit_interval (arg_relative_contact_rate a) \<and>
              disposition_valid (arg_hospitalized a) \<and> disposition_valid (arg_icu a) \<and>
              disposition_valid (arg_ventilated a))"
  shows "\<exists>c v. Parameters_init today a = Inl (ValidationError c v)"
  using assms unfolding Parameters_init_def validator_eqs disposition_valid_def
  by (auto simp: ebind_def)

lemma Parameters_init_neither:
  assumes "is_nonneg (arg_current_hospitalized a)"
    and "in_unit_interval (arg_relative_contact_rate a)"
    and "disposition_valid (arg_hospitalized a)" and "disposition_valid (arg_icu a)"
    and "disposition_valid (arg_ventilated a)"
    and "arg_population a = VNone" and "arg_region a = None"
  shows "Parameters_init today a = Inl (AssertionError ''population or regions must be provided.'')"
  using assms unfolding Parameters_init_def validator_eqs disposition_valid_def
  by (simp add: population_source_def)

text \<open>
  Claim C1, as amended. Supplying neither a region nor a population fails construction:
  with the AssertionError of the \<open>else\<close> branch, unless one of the validations that
  run before it has already failed. Construction proceeds only when at least one of the
  two is supplied: when a population is supplied, with or without a region, the instance
  stores that population and no region; when only a region is supplied, the instance
  stores the region and the region's population.
\<close>

theorem Parameters_population_source:
  "(arg_population a = VNone \<and> arg_region a = None \<longrightarrow>
      (\<exists>c v. Parameters_init today a = Inl (ValidationError c v)) \<or>
      Parameters_init today a = Inl (AssertionError ''population or regions must be provided.'')) \<and>
   (\<forall>p. Parameters_init today a = Inr p \<longrightarrow>
      (if arg_population a = VNone
       then \<exists>r. arg_region a = Some r \<and> region p = Some r \<and>
                getattr ''population'' r = Inr (population p)
       else region p = None \<and> population p = arg_population a))"
proof (intro conjI impI allI)
  assume "arg_population a = VNone \<and> arg_region a = None"
  then show "(\<exists>c v. Parameters_init today a = Inl (ValidationError c v)) \<or>
      Parameters_init today a = Inl (AssertionError ''population or regions must be provided.'')"
    using Parameters_init_early_failure [of a today] Parameters_init_neither [of a today]
    by blast
next
  fix p
  assume "Parameters_init today a = Inr p"
  then have "population_source (arg_region a) (arg_population a) = Inr (region p, population p)"
    by (auto simp: Parameters_init_eq_Inr)
  then show "if arg_population a = VNone
       then \<exists>r. arg_region a = Some r \<and> region p = Some r \<and>
                getattr ''population'' r = Inr (population p)
       else region p = None \<and> population p = arg_population a"
    by (auto simp: population_source_eq_Inr split: if_splits)
qed

text \<open>Unfolding the sample inputs and the constraints on them.\<close>

lemmas sample_defs =
  sample_kwargs_def sample_region_def sample_today_def
  disposition_valid_def others_valid_def is_nonneg_def is_strictly_positive_def
  in_unit_interval_def is_date_def valid_date_def days_in_month_def is_leap_def kwarg_def

lemma sample_kwargs_ok:
  "\<exists>p. Parameters_init sample_today sample_kwargs = Inr p"
  by (simp add: Parameters_init_eq_Inr population_source_eq_Inr sample_defs)

theorem Parameters_population_source_witness:
  "Parameters_init sample_today (sample_kwargs\<lparr>arg_population := VNone\<rparr>) =
     Inl (AssertionError ''population or regions must be provided.'') \<and>
   map_sum id region (Parameters_init sample_today (sample_kwargs\<lparr>arg_region := Some sample_region\<rparr>))
     = Inr None \<and>
   map_sum id population (Parameters_init sample_today (sample_kwargs\<lparr>arg_region := Some sample_region\<rparr>))
     = Inr (VNum 1000) \<and>
   map_sum id population
     (Parameters_init sample_today (sample_kwargs\<lparr>arg_population := VNone, arg_region := Some sample_region\<rparr>))
     = Inr (VNum 35)"
proof -
  let ?neither = "sample_kwargs\<lparr>arg_population := VNone\<rparr>"
  let ?both = "sample_kwargs\<lparr>arg_region := Some sample_region\<rparr>"
  let ?reg = "sample_kwargs\<lparr>arg_population := VNone, arg_region := Some sample_region\<rparr>"
  have n: "arg_population ?neither = VNone \<and> arg_region ?neither = None"
    by (simp add: sample_kwargs_def)
  have "\<not> (\<exists>c v. Parameters_init sample_today ?neither = Inl (ValidationError c v))"
    by (simp add: Parameters_init_neither sample_defs)
  with n Parameters_population_source [of ?neither sample_today]
  have 1: "Parameters_init sample_today ?neither =
     Inl (AssertionError ''population or regions must be provided.'')"
    by blast
  obtain p where p: "Parameters_init sample_today ?both = Inr p"
    by (simp add: Parameters_init_eq_Inr population_source_eq_Inr sample_defs)
  have 2: "region p = None \<and> population p = VNum 1000"
    using Parameters_population_source [of ?both sample_today] p
    by (simp add: sample_kwargs_def)
  obtain q where q: "Parameters_init sample_today ?reg = Inr q"
    by (simp add: Parameters_init_eq_Inr population_source_eq_Inr sample_defs getattr_def)
  have 3: "population q = VNum 35"
    using Parameters_population_source [of ?reg sample_today] q
    by (simp add: sample_kwargs_def sample_region_def getattr_def)
  show ?thesis
    using 1 2 3 by (simp add: p q)
qed

text \<open>
  Claim C1 as stated fails when both sources are supplied: with population 1000 and a
  region, and every other input valid, construction does not fail.
\<close>

theorem Parameters_both_sources_counterexample:
  "arg_population (sample_kwargs\<lparr>arg_region := Some sample_region\<rparr>) = VNum 1000 \<and>
   arg_region (sample_kwargs\<lparr>arg_region := Some sample_region\<rparr>) = Some sample_region \<and>
   \<not> isl (Parameters_init sample_today (sample_kwargs\<lparr>arg_region := Some sample_region\<rparr>))"
proof -
  obtain p where p: "Parameters_init sample_today (sample_kwargs\<lparr>arg_region := Some sample_region\<rparr>) = Inr p"
    by (simp add: Parameters_init_eq_Inr population_source_eq_Inr sample_defs)
  show ?thesis
    by (simp add: p) (simp add: sample_kwargs_def)
qed

text \<open>
  Claim C4. Constructing Parameters with population 1000, no region, every disposition's
  rate in \<open>[0, 1]\<close> and days strictly positive, and all other inputs valid, succeeds
  and yields an instance with population 1000 and no region.
\<close>

theorem Parameters_explicit_population:
  assumes "arg_population a = VNum 1000" and "arg_region a = None"
    and "disposition_valid (arg_hospitalized a)" and "disposition_valid (arg_icu a)"
    and "disposition_valid (arg_ventilated a)" and "others_valid today a"
  shows "\<exists>p. Parameters_init today a = Inr p \<and> population p = VNum 1000 \<and> region p = None"
  using assms
  by (simp add: Parameters_init_eq_Inr population_source_eq_Inr is_strictly_positive_def)

theorem Parameters_explicit_population_witness:
  "map_sum id population (Parameters_init sample_today sample_kwargs) = Inr (VNum 1000) \<and>
   map_sum id region (Parameters_init sample_today sample_kwargs) = Inr None"
proof -
  have "\<exists>p. Parameters_init sample_today sample_kwargs = Inr p \<and> population p = VNum 1000 \<and>
          region p = None"
    by (rule Parameters_explicit_population) (simp_all add: sample_defs)
  then show ?thesis by auto
qed

text \<open>
  Claim C6. Construction applies Rate to the rate and StrictlyPositive to the days of
  each of hospitalized, icu and ventilated, and stores the three dispositions unchanged
  (also in the lookup \<open>dispositions\<close>). So it fails with a validation error whenever
  some disposition's rate lies outside \<open>[0, 1]\<close> or its days is not strictly
  positive; when the two checks before them pass, the error is that of Rate on one of the
  rates or of StrictlyPositive on one of the days.
\<close>

theorem Parameters_validates_dispositions:
  "(\<forall>p. Parameters_init today a = Inr p \<longrightarrow>
      hospitalized p = arg_hospitalized a \<and> icu p = arg_icu a \<and>
      ventilated p = arg_ventilated a \<and>
      dispositions p = [''hospitalized'' \<mapsto> arg_hospitalized a, ''icu'' \<mapsto> arg_icu a,
                        ''ventilated'' \<mapsto> arg_ventilated a]) \<and>
   (\<not> (disposition_valid (arg_hospitalized a) \<and> disposition_valid (arg_icu a) \<and>
       disposition_valid (arg_ventilated a)) \<longrightarrow>
      (\<exists>c v. Parameters_init today a = Inl (ValidationError c v))) \<and>
   (is_nonneg (arg_current_hospitalized a) \<and> in_unit_interval (arg_relative_contact_rate a) \<and>
    \<not> (disposition_valid (arg_hospitalized a) \<and> disposition_valid (arg_icu a) \<and>
       disposition_valid (arg_ventilated a)) \<longrightarrow>
      (\<exists>d \<in> {arg_hospitalized a, arg_icu a, arg_ventilated a}.
          Parameters_init today a = Inl (ValidationError ''Rate'' (rate d)) \<or>
          Parameters_init today a = Inl (ValidationError ''StrictlyPositive'' (days d))))"
proof (intro conjI impI allI)
  fix p
  assume "Parameters_init today a = Inr p"
  then show "hospitalized p = arg_hospitalized a"
    and "icu p = arg_icu a"
    and "ventilated p = arg_ventilated a"
    and "dispositions p = [''hospitalized'' \<mapsto> arg_hospitalized a, ''icu'' \<mapsto> arg_icu a,
                        ''ventilated'' \<mapsto> arg_ventilated a]"
    by (auto simp: Parameters_init_eq_Inr)
next
  assume "\<not> (disposition_valid (arg_hospitalized a) \<and> disposition_valid (arg_icu a) \<and>
       disposition_valid (arg_ventilated a))"
  then show "\<exists>c v. Parameters_init today a = Inl (ValidationError c v)"
    using Parameters_init_early_failure [of a today] by blast
next
  assume "is_nonneg (arg_current_hospitalized a) \<and> in_unit_interval (arg_relative_contact_rate a) \<and>
    \<not> (disposition_valid (arg_hospitalized a) \<and> disposition_valid (arg_icu a) \<and>
       disposition_valid (arg_ventilated a))"
  then show "\<exists>d \<in> {arg_hospitalized a, arg_icu a, arg_ventilated a}.
          Parameters_init today a = Inl (ValidationError ''Rate'' (rate d)) \<or>
          Parameters_init today a = Inl (ValidationError ''StrictlyPositive'' (days d))"
    unfolding Parameters_init_def validator_eqs disposition_valid_def
    by (auto simp: ebind_def)
qed

theorem Parameters_validates_dispositions_witness:
  "map_sum id hospitalized (Parameters_init sample_today sample_kwargs)
     = Inr \<lparr>rate = VNum (1 / 40), days = VNum 7\<rparr> \<and>
   map_sum id icu (Parameters_init sample_today sample_kwargs)
     = Inr \<lparr>rate = VNum (3 / 400), days = VNum 9\<rparr> \<and>
   map_sum id ventilated (Parameters_init sample_today sample_kwargs)
     = Inr \<lparr>rate = VNum (1 / 200), days = VNum 10\<rparr> \<and>
   Parameters_init sample_today (sample_kwargs\<lparr>arg_icu := \<lparr>rate = VNum 2, days = VNum 9\<rparr>\<rparr>)
     = Inl (ValidationError ''Rate'' (VNum 2)) \<and>
   Parameters_init sample_today
       (sample_kwargs\<lparr>arg_ventilated := \<lparr>rate = VNum (1 / 200), days = VNum 0\<rparr>\<rparr>)
     = Inl (ValidationError ''StrictlyPositive'' (VNum 0))"
proof -
  let ?bad_rate = "sample_kwargs\<lparr>arg_icu := \<lparr>rate = VNum 2, days = VNum 9\<rparr>\<rparr>"
  let ?bad_days = "sample_kwargs\<lparr>arg_ventilated := \<lparr>rate = VNum (1 / 200), days = VNum 0\<rparr>\<rparr>"
  obtain p where p: "Parameters_init sample_today sample_kwargs = Inr p"
    using sample_kwargs_ok by blast
  have 1: "hospitalized p = arg_hospitalized sample_kwargs \<and> icu p = arg_icu sample_kwargs \<and>
           ventilated p = arg_ventilated sample_kwargs"
    using Parameters_validates_dispositions [of sample_today sample_kwargs] p by blast
  have "\<exists>d \<in> {arg_hospitalized ?bad_rate, arg_icu ?bad_rate, arg_ventilated ?bad_rate}.
          Parameters_init sample_today ?bad_rate = Inl (ValidationError ''Rate'' (rate d)) \<or>
          Parameters_init sample_today ?bad_rate = Inl (ValidationError ''StrictlyPositive'' (days d))"
    using Parameters_validates_dispositions [of sample_today ?bad_rate]
    by (simp add: sample_defs)
  then have 2: "Parameters_init sample_today ?bad_rate = Inl (ValidationError ''Rate'' (VNum 2))"
    by (simp add: sample_defs Parameters_init_def validator_eqs)
  have "\<exists>c v. Parameters_init sample_today ?bad_days = Inl (ValidationError c v)"
    using Parameters_validates_dispositions [of sample_today ?bad_days]
    by (simp add: sample_defs)
  then have 3: "Parameters_init sample_today ?bad_days
      = Inl (ValidationError ''StrictlyPositive'' (VNum 0))"
    by (simp add: sample_defs Parameters_init_def validator_eqs)
  show ?thesis
    using 1 2 3 by (simp add: p) (simp add: sample_kwargs_def)
qed

text \<open>
  Claim C9. Construction is deterministic: two constructions from the same inputs that
  both succeed yield equal instances, attribute by attribute. The only input that is not
  an argument is the default of \<open>current_date\<close>, fixed when the module is loaded; it
  matters only when the caller leaves \<open>current_date\<close> out.
\<close>

theorem Parameters_deterministic:
  assumes "Parameters_init today1 a = Inr p" and "Parameters_init today2 a = Inr q"
    and "arg_current_date a = None \<longrightarrow> today1 = today2"
  shows "p = q"
proof (cases "arg_current_date a")
  case None
  with assms show ?thesis by simp
next
  case (Some d)
  with assms(1,2) show ?thesis
    by (auto simp: Parameters_init_eq_Inr kwarg_def)
qed

theorem Parameters_deterministic_witness:
  "Parameters_init (VDate 2020 4 1) (sample_kwargs\<lparr>arg_current_date := Some (VDate 2020 3 28)\<rparr>)
     = Parameters_init (VDate 2021 1 1) (sample_kwargs\<lparr>arg_current_date := Some (VDate 2020 3 28)\<rparr>) \<and>
   \<not> isl (Parameters_init (VDate 2020 4 1) (sample_kwargs\<lparr>arg_current_date := Some (VDate 2020 3 28)\<rparr>))"
proof -
  let ?a = "sample_kwargs\<lparr>arg_current_date := Some (VDate 2020 3 28)\<rparr>"
  obtain p where p: "Parameters_init (VDate 2020 4 1) ?a = Inr p"
    by (simp add: Parameters_init_eq_Inr population_source_eq_Inr sample_defs)
  obtain q where q: "Parameters_init (VDate 2021 1 1) ?a = Inr q"
    by (simp add: Parameters_init_eq_Inr population_source_eq_Inr sample_defs)
  have "arg_current_date ?a = None \<longrightarrow> VDate 2020 4 1 = VDate 2021 1 1"
    by simp
  from Parameters_deterministic [OF p q this] show ?thesis
    by (simp add: p q)
qed

section \<open>The request adapter\<close>

lemma py_int_error: "py_int s = Inl e \<Longrightarrow> \<exists>msg. e = ValueError msg"
  by (auto simp: py_int_def Let_def split: prod.splits if_splits)

lemma days_in_month_bounds: "28 \<le> days_in_month y m \<and> days_in_month y m \<le> 31"
  by (simp add: days_in_month_def)

lemma date_eq_Inr: "(date y m d = Inr v) = (valid_date y m d \<and> v = VDate y m d)"
  using days_in_month_bounds [of y m]
  by (auto simp: date_def c_int_def valid_date_def)

lemma date_error: "date y m d = Inl e \<Longrightarrow> is_parse_error e"
  by (auto simp: date_def c_int_def is_parse_error_def split: if_splits)

lemma date_fails: "\<not> valid_date y m d \<Longrightarrow> \<exists>e. date y m d = Inl e"
  by (cases "date y m d") (simp_all add: date_eq_Inr)

text \<open>The pieces of the default date string and of the sample strings, and their integers.\<close>

lemma py_int_literals:
  "py_int ''2020'' = Inr 2020" "py_int ''2021'' = Inr 2021" "py_int ''7'' = Inr 7"
  "py_int ''3'' = Inr 3" "py_int ''13'' = Inr 13" "py_int ''1'' = Inr 1"
  by (simp_all add: py_int_def strip_def is_space_def is_digit_def digits_value_def
      max_str_digits_def)

lemma association_map_eq_Inr:
  "(association_map request_data = Inr a) =
     (\<exists>split_date s0 y s1 m s2 d.
        str_split (dict_get request_data ''dateOfFirstHospitalizedCase'' (VStr ''2020-7-3'')) CHR ''-''
          = Inr split_date \<and>
        getitem split_date 0 = Inr s0 \<and> py_int s0 = Inr y \<and>
        getitem split_date 1 = Inr s1 \<and> py_int s1 = Inr m \<and>
        getitem split_date 2 = Inr s2 \<and> py_int s2 = Inr d \<and> valid_date y m d \<and>
        a = \<lparr>arg_current_hospitalized = dict_get request_data ''currentHospitalized'' (VNum 0),
          arg_hospitalized =
            \<lparr>rate = dict_get request_data ''hospitalizationPercent'' (VNum 0),
             days = dict_get request_data ''averageHospitalLengthOfStay'' (VNum 0)\<rparr>,
          arg_icu =
            \<lparr>rate = dict_get request_data ''icuNeedPercent'' (VNum 0),
             days = dict_get request_data ''averageDaysInICU'' (VNum 0)\<rparr>,
          arg_relative_contact_rate = dict_get request_data ''socialDistancing'' (VNum 0),
          arg_ventilated =
            \<lparr>rate = dict_get request_data ''ventilationNeedPercent'' (VNum 0),
             days = dict_get request_data ''averageDaysOnVentilator'' (VNum 0)\<rparr>,
          arg_current_date = None,
          arg_date_first_hospitalized = VDate y m d,
          arg_doubling_time = VNone,
          arg_infectious_days = Some (dict_get request_data ''infectiousDays'' (VNum 0)),
          arg_market_share = Some (dict_get request_data ''hospitalMarketShare'' (VNum 0)),
          arg_max_y_axis = VNone,
          arg_n_days = Some (dict_get request_data ''numberOfDaysToProject'' (VNum 100)),
          arg_population = dict_get request_data ''population'' (VNum 10000),
          arg_recovered = None,
          arg_region = None\<rparr>)"
  unfolding association_map_def
  by (simp add: ebind_eq_Inr date_eq_Inr) blast

lemma default_date_parts:
  "request_data ''dateOfFirstHospitalizedCase'' = None \<Longrightarrow>
   association_map request_data = Inr a \<Longrightarrow> arg_date_first_hospitalized a = VDate 2020 7 3"
  by (auto simp: association_map_eq_Inr dict_get_def str_split_def getitem_def py_int_literals)

text \<open>
  Claim C7. For every request mapping, construct_parameters passes the request's
  population (10000 when the key is absent) and never a region: whenever it succeeds, the
  instance has no region and its population is that value.
\<close>

theorem construct_parameters_population:
  assumes "construct_parameters today request_data = Inr p"
  shows "region p = None \<and> population p = dict_get request_data ''population'' (VNum 10000)"
proof -
  from assms obtain a where
    a: "association_map request_data = Inr a" and p: "Parameters_init today a = Inr p"
    by (auto simp: construct_parameters_def ebind_eq_Inr)
  from a have "arg_region a = None"
    and "arg_population a = dict_get request_data ''population'' (VNum 10000)"
    by (auto simp: association_map_eq_Inr)
  with p show ?thesis
    by (auto simp: Parameters_init_eq_Inr population_source_eq_Inr split: if_splits)
qed

text \<open>The sample request goes through.\<close>

lemma association_map_sample_request:
  "association_map sample_request =
     Inr \<lparr>arg_current_hospitalized = VNum 0,
          arg_hospitalized = \<lparr>rate = VNum 0, days = VNum 7\<rparr>,
          arg_icu = \<lparr>rate = VNum 0, days = VNum 9\<rparr>,
          arg_relative_contact_rate = VNum 0,
          arg_ventilated = \<lparr>rate = VNum 0, days = VNum 10\<rparr>,
          arg_current_date = None,
          arg_date_first_hospitalized = VDate 2020 7 3,
          arg_doubling_time = VNone,
          arg_infectious_days = Some (VNum 14),
          arg_market_share = Some (VNum 0),
          arg_max_y_axis = VNone,
          arg_n_days = Some (VNum 100),
          arg_population = VNum 10000,
          arg_recovered = None,
          arg_region = None\<rparr>"
  by (simp add: association_map_def sample_request_def dict_get_def str_split_def getitem_def
      py_int_literals date_def c_int_def days_in_month_def)

lemma construct_parameters_sample_request:
  "\<exists>p. construct_parameters sample_today sample_request = Inr p"
  by (simp add: construct_parameters_def association_map_sample_request Parameters_init_eq_Inr
      population_source_eq_Inr sample_defs)

theorem construct_parameters_population_witness:
  "map_sum id region (construct_parameters sample_today sample_request) = Inr None \<and>
   map_sum id population (construct_parameters sample_today sample_request) = Inr (VNum 10000)"
proof -
  obtain p where p: "construct_parameters sample_today sample_request = Inr p"
    using construct_parameters_sample_request by blast
  have "dict_get sample_request ''population'' (VNum 10000) = VNum 10000"
    by (simp add: dict_get_def sample_request_def)
  with construct_parameters_population [OF p] show ?thesis
    by (simp add: p)
qed

text \<open>
  Claim C2 as stated fails: on the empty mapping construct_parameters does not succeed.
  The default of \<open>averageHospitalLengthOfStay\<close> is 0, and StrictlyPositive rejects
  the days of the hospitalized disposition.
\<close>

theorem construct_parameters_empty_counterexample:
  "construct_parameters sample_today Map.empty = Inl (ValidationError ''StrictlyPositive'' (VNum 0))"
  by (simp add: construct_parameters_def association_map_def dict_get_def str_split_def getitem_def
      py_int_literals date_def c_int_def Parameters_init_def validator_eqs sample_defs)

text \<open>
  Claim C2, as amended. On the empty mapping construct_parameters assembles the stated
  defaults (population 10000, n_days 100, date_first_hospitalized 2020-07-03,
  hospitalized \<open>Disposition(0, 0)\<close>) and then fails with the validation error of
  StrictlyPositive on the value 0. Whenever it succeeds on a request that leaves out
  population, numberOfDaysToProject, dateOfFirstHospitalizedCase and
  hospitalizationPercent, the instance has population 10000, n_days 100,
  date_first_hospitalized 2020-07-03 and hospitalized.rate 0.
\<close>

theorem construct_parameters_defaults:
  "construct_parameters today Map.empty = Inl (ValidationError ''StrictlyPositive'' (VNum 0)) \<and>
   map_sum id arg_population (association_map Map.empty) = Inr (VNum 10000) \<and>
   map_sum id arg_n_days (association_map Map.empty) = Inr (Some (VNum 100)) \<and>
   map_sum id arg_date_first_hospitalized (association_map Map.empty) = Inr (VDate 2020 7 3) \<and>
   map_sum id arg_hospitalized (association_map Map.empty) = Inr \<lparr>rate = VNum 0, days = VNum 0\<rparr> \<and>
   (request_data ''population'' = None \<and> request_data ''numberOfDaysToProject'' = None \<and>
    request_data ''dateOfFirstHospitalizedCase'' = None \<and>
    request_data ''hospitalizationPercent'' = None \<and>
    construct_parameters today request_data = Inr p \<longrightarrow>
      population p = VNum 10000 \<and> n_days p = VNum 100 \<and>
      date_first_hospitalized p = VDate 2020 7 3 \<and> rate (hospitalized p) = VNum 0)"
proof (intro conjI impI)
  show "construct_parameters today Map.empty = Inl (ValidationError ''StrictlyPositive'' (VNum 0))"
    by (simp add: construct_parameters_def association_map_def dict_get_def str_split_def
        getitem_def py_int_literals date_def c_int_def days_in_month_def Parameters_init_def validator_eqs
        is_nonneg_def in_unit_interval_def is_strictly_positive_def)
  show "map_sum id arg_population (association_map Map.empty) = Inr (VNum 10000)"
    and "map_sum id arg_n_days (association_map Map.empty) = Inr (Some (VNum 100))"
    and "map_sum id arg_date_first_hospitalized (association_map Map.empty) = Inr (VDate 2020 7 3)"
    and "map_sum id arg_hospitalized (association_map Map.empty) = Inr \<lparr>rate = VNum 0, days = VNum 0\<rparr>"
    by (simp_all add: association_map_def dict_get_def str_split_def getitem_def py_int_literals
        date_def c_int_def days_in_month_def)
next
  assume h: "request_data ''population'' = None \<and> request_data ''numberOfDaysToProject'' = None \<and>
    request_data ''dateOfFirstHospitalizedCase'' = None \<and>
    request_data ''hospitalizationPercent'' = None \<and>
    construct_parameters today request_data = Inr p"
  then obtain a where
    a: "association_map request_data = Inr a" and p: "Parameters_init today a = Inr p"
    by (auto simp: construct_parameters_def ebind_eq_Inr)
  have d: "arg_date_first_hospitalized a = VDate 2020 7 3"
    using h by (intro default_date_parts [OF _ a]) simp
  from a h have f: "arg_population a = VNum 10000" "arg_n_days a = Some (VNum 100)"
    "rate (arg_hospitalized a) = VNum 0" "arg_region a = None"
    by (auto simp: association_map_eq_Inr dict_get_def)
  from p d f show "population p = VNum 10000" and "n_days p = VNum 100"
    and "date_first_hospitalized p = VDate 2020 7 3" and "rate (hospitalized p) = VNum 0"
    by (auto simp: Parameters_init_eq_Inr population_source_eq_Inr kwarg_def)
qed

theorem construct_parameters_defaults_witness:
  "map_sum id population (construct_parameters sample_today sample_request) = Inr (VNum 10000) \<and>
   map_sum id n_days (construct_parameters sample_today sample_request) = Inr (VNum 100) \<and>
   map_sum id date_first_hospitalized (construct_parameters sample_today sample_request)
     = Inr (VDate 2020 7 3) \<and>
   map_sum id hospitalized (construct_parameters sample_today sample_request)
     = Inr \<lparr>rate = VNum 0, days = VNum 7\<rparr> \<and>
   construct_parameters sample_today Map.empty = Inl (ValidationError ''StrictlyPositive'' (VNum 0))"
proof -
  obtain p where p: "construct_parameters sample_today sample_request = Inr p"
    using construct_parameters_sample_request by blast
  have h: "sample_request ''population'' = None \<and> sample_request ''numberOfDaysToProject'' = None \<and>
    sample_request ''dateOfFirstHospitalizedCase'' = None \<and>
    sample_request ''hospitalizationPercent'' = None"
    by (simp add: sample_request_def)
  from construct_parameters_defaults [of sample_today sample_request p] h p
  have 1: "construct_parameters sample_today Map.empty = Inl (ValidationError ''StrictlyPositive'' (VNum 0))"
    and 2: "population p = VNum 10000 \<and> n_days p = VNum 100 \<and>
      date_first_hospitalized p = VDate 2020 7 3 \<and> rate (hospitalized p) = VNum 0"
    by blast+
  from p have "Parameters_init sample_today
      \<lparr>arg_current_hospitalized = VNum 0,
          arg_hospitalized = \<lparr>rate = VNum 0, days = VNum 7\<rparr>,
          arg_icu = \<lparr>rate = VNum 0, days = VNum 9\<rparr>,
          arg_relative_contact_rate = VNum 0,
          arg_ventilated = \<lparr>rate = VNum 0, days = VNum 10\<rparr>,
          arg_current_date = None,
          arg_date_first_hospitalized = VDate 2020 7 3,
          arg_doubling_time = VNone,
          arg_infectious_days = Some (VNum 14),
          arg_market_share = Some (VNum 0),
          arg_max_y_axis = VNone,
          arg_n_days = Some (VNum 100),
          arg_population = VNum 10000,
          arg_recovered = None,
          arg_region = None\<rparr> = Inr p"
    by (simp add: construct_parameters_def association_map_sample_request)
  then have 3: "hospitalized p = \<lparr>rate = VNum 0, days = VNum 7\<rparr>"
    by (auto simp: Parameters_init_eq_Inr)
  show ?thesis
    using 1 2 3 by (simp add: p)
qed

text \<open>The date string: where the date step fails, and where it does not.\<close>

lemma getitem_error: "getitem xs i = Inl e \<Longrightarrow> is_parse_error e"
  by (auto simp: getitem_def is_parse_error_def split: if_splits)

lemma py_int_parse_error: "py_int s = Inl e \<Longrightarrow> is_parse_error e"
  by (auto simp: is_parse_error_def dest: py_int_error)

lemma association_map_date_rejected:
  assumes "request_data ''dateOfFirstHospitalizedCase'' = Some (VStr s)"
    and "date_string_rejected s"
  shows "\<exists>e. association_map request_data = Inl e \<and> is_parse_error e"
proof -
  let ?ps = "split_on CHR ''-'' s"
  have start: "str_split (dict_get request_data ''dateOfFirstHospitalizedCase'' (VStr ''2020-7-3''))
      CHR ''-'' = Inr ?ps"
    using assms(1) by (simp add: dict_get_def str_split_def)
  show ?thesis
  proof (cases "getitem ?ps 0")
    case (Inl e)
    then show ?thesis
      using getitem_error [OF Inl] by (simp add: association_map_def start)
  next
    case s0: (Inr s0)
    show ?thesis
    proof (cases "py_int s0")
      case (Inl e)
      then show ?thesis
        using py_int_parse_error [OF Inl] by (simp add: association_map_def start s0)
    next
      case y: (Inr y)
      show ?thesis
      proof (cases "getitem ?ps (Suc 0)")
        case (Inl e)
        then show ?thesis
          using getitem_error [OF Inl] by (simp add: association_map_def start s0 y)
      next
        case s1: (Inr s1)
        show ?thesis
        proof (cases "py_int s1")
          case (Inl e)
          then show ?thesis
            using py_int_parse_error [OF Inl] by (simp add: association_map_def start s0 y s1)
        next
          case m: (Inr m)
          show ?thesis
          proof (cases "getitem ?ps 2")
            case (Inl e)
            then show ?thesis
              using getitem_error [OF Inl] by (simp add: association_map_def start s0 y s1 m)
          next
            case s2: (Inr s2)
            show ?thesis
            proof (cases "py_int s2")
              case (Inl e)
              then show ?thesis
                using py_int_parse_error [OF Inl]
                by (simp add: association_map_def start s0 y s1 m s2)
            next
              case d: (Inr d)
              have len: "2 < length ?ps"
                using s2 by (simp add: getitem_def split: if_splits)
              then obtain a b c rest where ps: "?ps = a # b # c # rest"
                by (cases ?ps; cases "tl ?ps"; cases "tl (tl ?ps)") auto
              have "a = s0" "b = s1" "c = s2"
                using s0 s1 s2 by (simp_all add: ps getitem_def)
              then have "\<not> valid_date y m d"
                using assms(2) y m d by (simp add: date_string_rejected_def ps)
              then obtain e where "date y m d = Inl e"
                using date_fails by blast
              then show ?thesis
                using date_error [of y m d e]
                by (simp add: association_map_def start s0 y s1 m s2 d)
            qed
          qed
        qed
      qed
    qed
  qed
qed

lemma association_map_date_accepted:
  assumes "request_data ''dateOfFirstHospitalizedCase'' = Some (VStr s)"
    and "\<not> date_string_rejected s"
  shows "\<exists>a. association_map request_data = Inr a"
proof -
  let ?ps = "split_on CHR ''-'' s"
  have start: "str_split (dict_get request_data ''dateOfFirstHospitalizedCase'' (VStr ''2020-7-3''))
      CHR ''-'' = Inr ?ps"
    using assms(1) by (simp add: dict_get_def str_split_def)
  from assms(2) obtain a b c y m d where
    t: "take 3 ?ps = [a, b, c]" and i: "py_int a = Inr y" "py_int b = Inr m" "py_int c = Inr d"
    and v: "valid_date y m d"
    by (auto simp: date_string_rejected_def split: list.splits sum.splits)
  from t obtain rest where ps: "?ps = a # b # c # rest"
    by (cases ?ps; cases "tl ?ps"; cases "tl (tl ?ps)") auto
  show ?thesis
    using i v by (simp add: association_map_eq_Inr start ps getitem_def)
qed

text \<open>
  Claim C3, as amended. For every request whose dateOfFirstHospitalizedCase is a string
  with fewer than three pieces between the dashes, or with a piece among the first three
  that \<open>int\<close> rejects, or whose first three pieces are integers that form no calendar
  date, construct_parameters fails with an IndexError, a ValueError or an OverflowError
  (the last for an integer beyond 32 bits, which \<open>date\<close> cannot take). Every other string
  passes the date step: pieces after the third are never read. In particular the request
  with the date string \<open>2021-13-1\<close> fails, 13 being no month.
\<close>

theorem construct_parameters_rejects_date:
  assumes "request_data ''dateOfFirstHospitalizedCase'' = Some (VStr s)"
  shows "(date_string_rejected s \<longrightarrow>
            (\<exists>e. construct_parameters today request_data = Inl e \<and> is_parse_error e)) \<and>
         (\<not> date_string_rejected s \<longrightarrow> (\<exists>a. association_map request_data = Inr a))"
  using assms association_map_date_rejected [of request_data s]
    association_map_date_accepted [of request_data s]
  by (auto simp: construct_parameters_def)

theorem construct_parameters_rejects_date_witness:
  "date_string_rejected ''2021-13-1'' \<and>
   construct_parameters sample_today [''dateOfFirstHospitalizedCase'' \<mapsto> VStr ''2021-13-1'']
     = Inl (ValueError ''month must be in 1..12'') \<and>
   is_parse_error (ValueError ''month must be in 1..12'') \<and>
   date_string_rejected ''2147483648-1-1'' \<and>
   construct_parameters sample_today [''dateOfFirstHospitalizedCase'' \<mapsto> VStr ''2147483648-1-1'']
     = Inl (OverflowError ''signed integer is greater than maximum'') \<and>
   is_parse_error (OverflowError ''signed integer is greater than maximum'') \<and>
   date_string_rejected (''2020-'' @ [CHR 0x1C] @ ''7-3'') \<and>
   construct_parameters sample_today
       [''dateOfFirstHospitalizedCase'' \<mapsto> VStr (''2020-'' @ [CHR 0x1C] @ ''7-3'')]
     = Inl (ValueError ''invalid literal for int() with base 10'')"
proof -
  let ?key = "''dateOfFirstHospitalizedCase''"
  let ?month = "''2021-13-1''"
  let ?big = "''2147483648-1-1''"
  let ?ctl = "''2020-'' @ [CHR 0x1C] @ ''7-3''"
  have ints: "py_int ''2147483648'' = Inr 2147483648"
    "py_int [CHR 0x1C, CHR ''7''] = Inl (ValueError ''invalid literal for int() with base 10'')"
    by (simp_all add: py_int_def strip_def is_space_def is_digit_def digits_value_def
        max_str_digits_def)
  have r: "date_string_rejected ?month" "date_string_rejected ?big" "date_string_rejected ?ctl"
    by (simp_all add: date_string_rejected_def py_int_literals ints valid_date_def)
  have e: "\<exists>e. construct_parameters sample_today [?key \<mapsto> VStr s] = Inl e \<and> is_parse_error e"
    if "date_string_rejected s" for s
    using construct_parameters_rejects_date [of "[?key \<mapsto> VStr s]" s sample_today] that
    by simp
  have 1: "construct_parameters sample_today [?key \<mapsto> VStr ?month]
      = Inl (ValueError ''month must be in 1..12'')"
    using e [OF r(1)]
    by (simp add: construct_parameters_def association_map_def dict_get_def str_split_def
        getitem_def py_int_literals date_def c_int_def)
  have 2: "construct_parameters sample_today [?key \<mapsto> VStr ?big]
      = Inl (OverflowError ''signed integer is greater than maximum'')"
    using e [OF r(2)]
    by (simp add: construct_parameters_def association_map_def dict_get_def str_split_def
        getitem_def py_int_literals ints date_def c_int_def)
  have 3: "construct_parameters sample_today [?key \<mapsto> VStr ?ctl]
      = Inl (ValueError ''invalid literal for int() with base 10'')"
    using e [OF r(3)]
    by (simp add: construct_parameters_def association_map_def dict_get_def str_split_def
        getitem_def py_int_literals ints)
  show ?thesis
    using r 1 2 3 by (simp add: is_parse_error_def)
qed

text \<open>
  Claim C3 as stated fails for a wrong component count above three: the string
  \<open>2020-7-3-99\<close> has four pieces, and with the other fields valid
  construct_parameters succeeds.
\<close>

theorem construct_parameters_extra_piece_counterexample:
  "length (split_on CHR ''-'' ''2020-7-3-99'') = 4 \<and>
   \<not> isl (construct_parameters sample_today
            (sample_request(''dateOfFirstHospitalizedCase'' \<mapsto> VStr ''2020-7-3-99'')))"
proof -
  have "\<exists>p. construct_parameters sample_today
            (sample_request(''dateOfFirstHospitalizedCase'' \<mapsto> VStr ''2020-7-3-99'')) = Inr p"
    by (simp add: construct_parameters_def association_map_def sample_request_def dict_get_def
        str_split_def getitem_def py_int_literals date_def c_int_def
        Parameters_init_eq_Inr population_source_eq_Inr sample_defs)
  then show ?thesis by auto
qed

end
